theory Spec2Isabelle
  imports Complex_Main "HOL-Library.Sublist"
begin

section \<open>JavaScript values, requests and responses\<close>

text \<open>
  The values that \<open>express.json()\<close> puts into \<open>req.body\<close>, that the PostgreSQL driver
  returns in a row and that \<open>res.json\<close> sends. A number is a rational: \<open>NaN\<close> cannot
  come out of a JSON body, and the handlers look at a number only through its truthiness.
  An object is the list of its properties; the first binding of a name is the property.
\<close>

datatype jsval =
    JUndefined
  | JNull
  | JBool bool
  | JNum rat
  | JStr string
  | JArr "jsval list"
  | JObj "(string \<times> jsval) list"

type_synonym jsobject = "(string \<times> jsval) list"

text \<open>JavaScript's \<open>ToBoolean\<close>: \<open>!v\<close> holds exactly when \<open>truthy v\<close> is false.\<close>

fun truthy :: "jsval \<Rightarrow> bool" where
  "truthy JUndefined = False"
| "truthy JNull = False"
| "truthy (JBool b) = b"
| "truthy (JNum n) = (n \<noteq> 0)"
| "truthy (JStr s) = (s \<noteq> [])"
| "truthy (JArr xs) = True"
| "truthy (JObj kvs) = True"

text \<open>Property access \<open>obj.key\<close> (and destructuring): a missing property is \<open>undefined\<close>.\<close>

definition get :: "jsobject \<Rightarrow> string \<Rightarrow> jsval" where
  "get obj key = (case map_of obj key of None \<Rightarrow> JUndefined | Some v \<Rightarrow> v)"

text \<open>
  A rejected promise or a thrown exception carries an \<open>Error\<close> object, as the PostgreSQL
  driver and bcrypt raise them; the handlers read only its \<open>code\<close> property
  (\<open>undefined\<close> on an error that has none).
\<close>

record js_error =
  code :: jsval
  message :: string

text \<open>
  \<open>req.body\<close> and \<open>req.params\<close> of an incoming request. Both are objects when a handler
  runs: \<open>express.json()\<close> has parsed the body (a request without a JSON body has the empty
  object), and the router has bound the two path segments.
\<close>

record request =
  body :: jsobject
  params :: jsobject

text \<open>\<open>res.status(n).json(obj)\<close>.\<close>

record response =
  status :: nat
  json :: jsobject

section \<open>The collaborators: bcrypt and the connection pool\<close>

text \<open>
  \<open>bcrypt\<close> and \<open>pool\<close> are libraries outside the repository. Each call takes the
  state of the outside world \<open>'w\<close> (database contents, random source, network) and
  returns either the error it rejects with (\<open>Inl\<close>) or its value, and the new world.
\<close>

record query_result =
  rows :: "jsobject list"

record 'w env =
  bcrypt_genSalt :: "nat \<Rightarrow> 'w \<Rightarrow> (js_error + string) \<times> 'w"
  bcrypt_hash :: "jsval \<Rightarrow> string \<Rightarrow> 'w \<Rightarrow> (js_error + string) \<times> 'w"
  bcrypt_compare :: "jsval \<Rightarrow> jsval \<Rightarrow> 'w \<Rightarrow> (js_error + bool) \<times> 'w"
  pool_query :: "string \<Rightarrow> jsval list \<Rightarrow> 'w \<Rightarrow> (js_error + query_result) \<times> 'w"

text \<open>What a handler does besides answering: the calls it issues and the lines it logs.\<close>

datatype event =
    GenSalt nat
  | Hash jsval string
  | Compare jsval jsval
  | Query string "jsval list"
  | ConsoleError string js_error

record 'w state =
  world :: 'w
  trace :: "event list"

definition genSalt :: "'w env \<Rightarrow> nat \<Rightarrow> 'w state \<Rightarrow> (js_error + string) \<times> 'w state" where
  "genSalt E rounds s =
     (case bcrypt_genSalt E rounds (world s) of
        (r, w) \<Rightarrow> (r, \<lparr>world = w, trace = trace s @ [GenSalt rounds]\<rparr>))"

definition hash :: "'w env \<Rightarrow> jsval \<Rightarrow> string \<Rightarrow> 'w state \<Rightarrow> (js_error + string) \<times> 'w state" where
  "hash E data salt s =
     (case bcrypt_hash E data salt (world s) of
        (r, w) \<Rightarrow> (r, \<lparr>world = w, trace = trace s @ [Hash data salt]\<rparr>))"

definition compare :: "'w env \<Rightarrow> jsval \<Rightarrow> jsval \<Rightarrow> 'w state \<Rightarrow> (js_error + bool) \<times> 'w state" where
  "compare E data encrypted s =
     (case bcrypt_compare E data encrypted (world s) of
        (r, w) \<Rightarrow> (r, \<lparr>world = w, trace = trace s @ [Compare data encrypted]\<rparr>))"

definition query :: "'w env \<Rightarrow> string \<Rightarrow> jsval list \<Rightarrow> 'w state \<Rightarrow> (js_error + query_result) \<times> 'w state" where
  "query E sql vals s =
     (case pool_query E sql vals (world s) of
        (r, w) \<Rightarrow> (r, \<lparr>world = w, trace = trace s @ [Query sql vals]\<rparr>))"

definition console_error :: "string \<Rightarrow> js_error \<Rightarrow> 'w state \<Rightarrow> 'w state" where
  "console_error label error s = s\<lparr>trace := trace s @ [ConsoleError label error]\<rparr>"

definition respond :: "nat \<Rightarrow> jsobject \<Rightarrow> response" where
  "respond n obj = \<lparr>status = n, json = obj\<rparr>"

text \<open>
  The \<open>TypeError\<close> of \<open>result.rows[0].id\<close> when the result has no row: it has no
  \<open>code\<close> property.
\<close>

definition type_error :: js_error where
  "type_error = \<lparr>code = JUndefined,
     message = ''Cannot read properties of undefined (reading 'id')''\<rparr>"

section \<open>The handlers of src/server.js\<close>

text \<open>The \<open>catch\<close> block of \<open>app.post('/register')\<close>.\<close>

definition register_catch :: "js_error \<Rightarrow> 'w state \<Rightarrow> response \<times> 'w state" where
  "register_catch error s =
     (let s1 = console_error ''Error during registration:'' error s in
      if code error = JStr ''23505'' then
        (respond 409 [(''message'', JStr ''Email already exists. Please use a different email.'')], s1)
      else
        (respond 500 [(''message'', JStr ''Internal server error during registration.'')], s1))"

definition register :: "'w env \<Rightarrow> request \<Rightarrow> 'w state \<Rightarrow> response \<times> 'w state" where
  "register E req s0 =
     (let email = get (body req) ''email''; password = get (body req) ''password'' in
      if \<not> truthy email \<or> \<not> truthy password then
        (respond 400 [(''message'', JStr ''Email and password are required.'')], s0)
      else
        let saltRounds = 10 in
        case genSalt E saltRounds s0 of
          (Inl error, s1) \<Rightarrow> register_catch error s1
        | (Inr salt, s1) \<Rightarrow>
            (case hash E password salt s1 of
               (Inl error, s2) \<Rightarrow> register_catch error s2
             | (Inr passwordHash, s2) \<Rightarrow>
                 (case query E
                    ''INSERT INTO users (email, password_hash, salt) VALUES ($1, $2, $3) RETURNING id''
                    [email, JStr passwordHash, JStr salt] s2 of
                    (Inl error, s3) \<Rightarrow> register_catch error s3
                  | (Inr result, s3) \<Rightarrow>
                      (case rows result of
                         [] \<Rightarrow> register_catch type_error s3
                       | row # _ \<Rightarrow>
                           (respond 201 [(''message'', JStr ''User registered successfully!''),
                                         (''userId'', get row ''id'')], s3)))))"

text \<open>The \<open>catch\<close> block of \<open>app.post('/login')\<close>.\<close>

definition login_catch :: "js_error \<Rightarrow> 'w state \<Rightarrow> response \<times> 'w state" where
  "login_catch error s =
     (let s1 = console_error ''Error during login:'' error s in
      (respond 500 [(''message'', JStr ''Internal server error during login.'')], s1))"

definition login :: "'w env \<Rightarrow> request \<Rightarrow> 'w state \<Rightarrow> response \<times> 'w state" where
  "login E req s0 =
     (let email = get (body req) ''email''; password = get (body req) ''password'' in
      if \<not> truthy email \<or> \<not> truthy password then
        (respond 400 [(''message'', JStr ''Email and password are required.'')], s0)
      else
        case query E ''SELECT * FROM users WHERE email = $1'' [email] s0 of
          (Inl error, s1) \<Rightarrow> login_catch error s1
        | (Inr result, s1) \<Rightarrow>
            (case rows result of
               [] \<Rightarrow> (respond 401 [(''message'', JStr ''Invalid email or password.'')], s1)
             | user # _ \<Rightarrow>
                 (case compare E password (get user ''password_hash'') s1 of
                    (Inl error, s2) \<Rightarrow> login_catch error s2
                  | (Inr isMatch, s2) \<Rightarrow>
                      if isMatch then
                        (respond 200 [(''message'', JStr ''Login successful!'')], s2)
                      else
                        (respond 401 [(''message'', JStr ''Invalid email or password.'')], s2))))"

text \<open>The \<open>catch\<close> block of \<open>app.get('/documents/:country/:type')\<close>.\<close>

definition documents_catch :: "js_error \<Rightarrow> 'w state \<Rightarrow> response \<times> 'w state" where
  "documents_catch error s =
     (let s1 = console_error ''Error fetching document details:'' error s in
      (respond 500 [(''message'', JStr ''Internal server error fetching document details.'')], s1))"

definition documents :: "'w env \<Rightarrow> request \<Rightarrow> 'w state \<Rightarrow> response \<times> 'w state" where
  "documents E req s0 =
     (let country = get (params req) ''country''; type = get (params req) ''type'' in
      case query E
        ''SELECT * FROM document_details WHERE country = $1 AND document_type = $2''
        [country, type] s0 of
        (Inl error, s1) \<Rightarrow> documents_catch error s1
      | (Inr result, s1) \<Rightarrow>
          (case rows result of
             document # _ \<Rightarrow> (respond 200 document, s1)
           | [] \<Rightarrow>
               (respond 404
                  [(''message'', JStr ''Document not found for the specified country and type.'')], s1)))"

text \<open>
  The three routes registered on \<open>app\<close>, and the server answering one request after
  another (requests that overlap at their \<open>await\<close>s are not modelled).
\<close>

datatype endpoint = PostRegister | PostLogin | GetDocuments

fun app :: "'w env \<Rightarrow> endpoint \<times> request \<Rightarrow> 'w state \<Rightarrow> response \<times> 'w state" where
  "app E (PostRegister, req) s = register E req s"
| "app E (PostLogin, req) s = login E req s"
| "app E (GetDocuments, req) s = documents E req s"

fun serve :: "'w env \<Rightarrow> (endpoint \<times> request) list \<Rightarrow> 'w state \<Rightarrow> response list \<times> 'w state" where
  "serve E [] s = ([], s)"
| "serve E (r # rs) s =
     (case app E r s of (res, s1) \<Rightarrow>
        (case serve E rs s1 of (ress, s2) \<Rightarrow> (res # ress, s2)))"

section \<open>The handlers of src/unnamed/part_000\<close>

definition part_000_register_catch :: "js_error \<Rightarrow> 'w state \<Rightarrow> response \<times> 'w state" where
  "part_000_register_catch error s =
     (let s1 = console_error ''Error during registration:'' error s in
      if code error = JStr ''23505'' then
        (respond 409 [(''message'', JStr ''Email already exists.'')], s1)
      else
        (respond 500 [(''message'', JStr ''Internal server error during registration.'')], s1))"

definition part_000_register :: "'w env \<Rightarrow> request \<Rightarrow> 'w state \<Rightarrow> response \<times> 'w state" where
  "part_000_register E req s0 =
     (let email = get (body req) ''email''; password = get (body req) ''password'' in
      if \<not> truthy email \<or> \<not> truthy password then
        (respond 400 [(''message'', JStr ''Email and password are required.'')], s0)
      else
        let saltRounds = 10 in
        case genSalt E saltRounds s0 of
          (Inl error, s1) \<Rightarrow> part_000_register_catch error s1
        | (Inr salt, s1) \<Rightarrow>
            (case hash E password salt s1 of
               (Inl error, s2) \<Rightarrow> part_000_register_catch error s2
             | (Inr passwordHash, s2) \<Rightarrow>
                 (case query E
                    ''INSERT INTO users (email, password_hash, salt) VALUES ($1, $2, $3) RETURNING id''
                    [email, JStr passwordHash, JStr salt] s2 of
                    (Inl error, s3) \<Rightarrow> part_000_register_catch error s3
                  | (Inr result, s3) \<Rightarrow>
                      (case rows result of
                         [] \<Rightarrow> part_000_register_catch type_error s3
                       | row # _ \<Rightarrow>
                           (respond 201 [(''message'', JStr ''User registered successfully!''),
                                         (''userId'', get row ''id'')], s3)))))"

definition part_000_login_catch :: "js_error \<Rightarrow> 'w state \<Rightarrow> response \<times> 'w state" where
  "part_000_login_catch error s =
     (let s1 = console_error ''Error during login:'' error s in
      (respond 500 [(''message'', JStr ''Internal server error during login.'')], s1))"

definition part_000_login :: "'w env \<Rightarrow> request \<Rightarrow> 'w state \<Rightarrow> response \<times> 'w state" where
  "part_000_login E req s0 =
     (let email = get (body req) ''email''; password = get (body req) ''password'' in
      if \<not> truthy email \<or> \<not> truthy password then
        (respond 400 [(''message'', JStr ''Email and password are required.'')], s0)
      else
        case query E ''SELECT * FROM users WHERE email = $1'' [email] s0 of
          (Inl error, s1) \<Rightarrow> part_000_login_catch error s1
        | (Inr result, s1) \<Rightarrow>
            (case rows result of
               [] \<Rightarrow> (respond 401 [(''message'', JStr ''Invalid email or password.'')], s1)
             | user # _ \<Rightarrow>
                 (case compare E password (get user ''password_hash'') s1 of
                    (Inl error, s2) \<Rightarrow> part_000_login_catch error s2
                  | (Inr isMatch, s2) \<Rightarrow>
                      if isMatch then
                        (respond 200 [(''message'', JStr ''Login successful!'')], s2)
                      else
                        (respond 401 [(''message'', JStr ''Invalid email or password.'')], s2))))"

definition part_000_documents_catch :: "js_error \<Rightarrow> 'w state \<Rightarrow> response \<times> 'w state" where
  "part_000_documents_catch error s =
     (let s1 = console_error ''Error fetching document details:'' error s in
      (respond 500 [(''message'', JStr ''Internal server error fetching document details.'')], s1))"

definition part_000_documents :: "'w env \<Rightarrow> request \<Rightarrow> 'w state \<Rightarrow> response \<times> 'w state" where
  "part_000_documents E req s0 =
     (let country = get (params req) ''country''; type = get (params req) ''type'' in
      case query E
        ''SELECT * FROM document_details WHERE country = $1 AND document_type = $2''
        [country, type] s0 of
        (Inl error, s1) \<Rightarrow> part_000_documents_catch error s1
      | (Inr result, s1) \<Rightarrow>
          (case rows result of
             document # _ \<Rightarrow> (respond 200 document, s1)
           | [] \<Rightarrow>
               (respond 404
                  [(''message'', JStr ''Document not found for the specified country and type.'')], s1)))"

section \<open>A reference datastore and hashing primitive\<close>

text \<open>
  Modelled from the spec: the relational datastore of section 6 (the \<open>users\<close> table with
  \<open>id\<close>, a unique \<open>email\<close>, \<open>password_hash\<close> and \<open>salt\<close>; the \<open>document_details\<close>
  table), whose schema and server are not among the source files. It executes the three
  statements the handlers send; parameter values are stored as they are passed (the
  driver's conversion to text is not modelled). \<open>failures\<close> schedules what the network
  and the server do to the coming calls: \<open>Some error\<close> makes the next call reject with
  that error and leaves the tables alone. \<open>entropy\<close> is the random source of the salts.
\<close>

record pg_world =
  users :: "jsobject list"
  document_details :: "jsobject list"
  users_id_seq :: nat
  failures :: "js_error option list"
  entropy :: "string list"

definition unique_violation :: js_error where
  "unique_violation = \<lparr>code = JStr ''23505'',
     message = ''duplicate key value violates unique constraint''\<rparr>"

definition protocol_violation :: js_error where
  "protocol_violation = \<lparr>code = JStr ''08P01'',
     message = ''bind message supplies the wrong number of parameters''\<rparr>"

definition syntax_error :: js_error where
  "syntax_error = \<lparr>code = JStr ''42601'', message = ''syntax error''\<rparr>"

text \<open>
  Modelled from the spec: what the datastore does with a statement. The \<open>INSERT\<close> draws
  the next \<open>id\<close> from the sequence and is rejected with the unique violation \<open>23505\<close>
  when a row has the email already; the two \<open>SELECT\<close>s return the rows that match
  exactly, in table order. Any other text, and a wrong number of parameters, is an error.
\<close>

definition pg_execute :: "string \<Rightarrow> jsval list \<Rightarrow> pg_world \<Rightarrow> (js_error + query_result) \<times> pg_world" where
  "pg_execute sql vals w =
     (if sql = ''INSERT INTO users (email, password_hash, salt) VALUES ($1, $2, $3) RETURNING id'' then
        (case vals of
           [email, password_hash, salt] \<Rightarrow>
             let id = JNum (of_nat (Suc (users_id_seq w)));
                 w1 = w\<lparr>users_id_seq := Suc (users_id_seq w)\<rparr> in
             if list_ex (\<lambda>row. get row ''email'' = email) (users w) then
               (Inl unique_violation, w1)
             else
               (Inr \<lparr>rows = [[(''id'', id)]]\<rparr>,
                w1\<lparr>users := users w @
                   [[(''id'', id), (''email'', email),
                     (''password_hash'', password_hash), (''salt'', salt)]]\<rparr>)
         | _ \<Rightarrow> (Inl protocol_violation, w))
      else if sql = ''SELECT * FROM users WHERE email = $1'' then
        (case vals of
           [email] \<Rightarrow> (Inr \<lparr>rows = filter (\<lambda>row. get row ''email'' = email) (users w)\<rparr>, w)
         | _ \<Rightarrow> (Inl protocol_violation, w))
      else if sql = ''SELECT * FROM document_details WHERE country = $1 AND document_type = $2'' then
        (case vals of
           [country, type] \<Rightarrow>
             (Inr \<lparr>rows = filter (\<lambda>row. get row ''country'' = country \<and>
                                        get row ''document_type'' = type) (document_details w)\<rparr>, w)
         | _ \<Rightarrow> (Inl protocol_violation, w))
      else (Inl syntax_error, w))"

text \<open>
  Modelled from the spec: \<open>pool.query\<close>, which either fails as \<open>failures\<close> schedules or
  executes the statement.
\<close>

definition pg_query :: "string \<Rightarrow> jsval list \<Rightarrow> pg_world \<Rightarrow> (js_error + query_result) \<times> pg_world" where
  "pg_query sql vals w =
     (case failures w of
        [] \<Rightarrow> pg_execute sql vals w
      | None # rest \<Rightarrow> pg_execute sql vals (w\<lparr>failures := rest\<rparr>)
      | Some error # rest \<Rightarrow> (Inl error, w\<lparr>failures := rest\<rparr>))"

text \<open>
  Modelled from the spec: the bcrypt-class primitive of sections 4.1 and 4.2, a library
  outside the source files. \<open>kdf\<close> is the slow one-way function itself and stays a
  parameter. A salt is the 7 characters of version and cost (\<open>$2b$10$\<close>) and 22 random
  ones; the hash string is the salt followed by the digest, so the comparison finds the
  cost and the salt in the hash it is given.
\<close>

definition two_digits :: "nat \<Rightarrow> string" where
  "two_digits n = [''0123456789'' ! (n div 10 mod 10), ''0123456789'' ! (n mod 10)]"

definition no_entropy :: js_error where
  "no_entropy = \<lparr>code = JUndefined, message = ''random source failed''\<rparr>"

definition invalid_arguments :: js_error where
  "invalid_arguments = \<lparr>code = JUndefined, message = ''data and salt arguments required''\<rparr>"

text \<open>
  Modelled from the spec: \<open>bcrypt.genSalt\<close>, \<open>bcrypt.hash\<close> (which rejects data that
  is not a string and a malformed salt) and \<open>bcrypt.compare\<close> (which rejects arguments that
  are not strings, and otherwise hashes the data again under the salt the hash begins with).
\<close>

definition ref_genSalt :: "nat \<Rightarrow> pg_world \<Rightarrow> (js_error + string) \<times> pg_world" where
  "ref_genSalt rounds w =
     (case entropy w of
        [] \<Rightarrow> (Inl no_entropy, w)
      | r # rest \<Rightarrow> (Inr (''$2b$'' @ two_digits rounds @ ''$'' @ r), w\<lparr>entropy := rest\<rparr>))"

definition ref_hash :: "(string \<Rightarrow> string \<Rightarrow> string) \<Rightarrow> jsval \<Rightarrow> string \<Rightarrow> pg_world \<Rightarrow> (js_error + string) \<times> pg_world" where
  "ref_hash kdf data salt w =
     (case data of
        JStr p \<Rightarrow> if length salt = 29 then (Inr (salt @ kdf p salt), w) else (Inl invalid_arguments, w)
      | _ \<Rightarrow> (Inl invalid_arguments, w))"

definition ref_compare :: "(string \<Rightarrow> string \<Rightarrow> string) \<Rightarrow> jsval \<Rightarrow> jsval \<Rightarrow> pg_world \<Rightarrow> (js_error + bool) \<times> pg_world" where
  "ref_compare kdf data encrypted w =
     (case (data, encrypted) of
        (JStr p, JStr h) \<Rightarrow> (Inr (29 \<le> length h \<and> h = take 29 h @ kdf p (take 29 h)), w)
      | _ \<Rightarrow> (Inl invalid_arguments, w))"

definition reference :: "(string \<Rightarrow> string \<Rightarrow> string) \<Rightarrow> pg_world env" where
  "reference kdf =
     \<lparr>bcrypt_genSalt = ref_genSalt, bcrypt_hash = ref_hash kdf,
      bcrypt_compare = ref_compare kdf, pool_query = pg_query\<rparr>"

section \<open>Notions used in the statements\<close>

text \<open>The SQL statements a trace sends to the pool, in order.\<close>

fun statements :: "event list \<Rightarrow> string list" where
  "statements [] = []"
| "statements (Query sql vals # evs) = sql # statements evs"
| "statements (ev # evs) = statements evs"

definition known_statements :: "string set" where
  "known_statements =
     {''INSERT INTO users (email, password_hash, salt) VALUES ($1, $2, $3) RETURNING id'',
      ''SELECT * FROM users WHERE email = $1'',
      ''SELECT * FROM document_details WHERE country = $1 AND document_type = $2''}"

text \<open>How many of the statements of a trace are not one of the two \<open>SELECT\<close>s.\<close>

definition writes :: "event list \<Rightarrow> nat" where
  "writes evs =
     length (filter (\<lambda>sql. sql \<noteq> ''SELECT * FROM users WHERE email = $1'' \<and>
        sql \<noteq> ''SELECT * FROM document_details WHERE country = $1 AND document_type = $2'')
        (statements evs))"

definition registrations :: "(endpoint \<times> request) list \<Rightarrow> nat" where
  "registrations requests = length (filter (\<lambda>r. fst r = PostRegister) requests)"

text \<open>The same collaborators, with every row the pool returns rewritten by \<open>f\<close>.\<close>

definition map_rows :: "(jsobject \<Rightarrow> jsobject) \<Rightarrow> 'w env \<Rightarrow> 'w env" where
  "map_rows f E =
     E\<lparr>pool_query := \<lambda>sql vals w.
          (case pool_query E sql vals w of
             (Inl error, w1) \<Rightarrow> (Inl error, w1)
           | (Inr result, w1) \<Rightarrow> (Inr (result\<lparr>rows := map f (rows result)\<rparr>), w1))\<rparr>"

text \<open>A relation between worlds that every call of the collaborators respects.\<close>

definition stable :: "('w \<Rightarrow> 'w \<Rightarrow> bool) \<Rightarrow> 'w env \<Rightarrow> bool" where
  "stable R E \<longleftrightarrow>
     (\<forall>rounds w. R w (snd (bcrypt_genSalt E rounds w))) \<and>
     (\<forall>data salt w. R w (snd (bcrypt_hash E data salt w))) \<and>
     (\<forall>data encrypted w. R w (snd (bcrypt_compare E data encrypted w))) \<and>
     (\<forall>sql vals w. R w (snd (pool_query E sql vals w)))"

definition rows_kept :: "pg_world \<Rightarrow> pg_world \<Rightarrow> bool" where
  "rows_kept w w' \<longleftrightarrow> prefix (users w) (users w')"

definition account_kept :: "jsval \<Rightarrow> pg_world \<Rightarrow> pg_world \<Rightarrow> bool" where
  "account_kept email w w' \<longleftrightarrow>
     (filter (\<lambda>row. get row ''email'' = email) (users w) = [] \<or>
      filter (\<lambda>row. get row ''email'' = email) (users w') =
      filter (\<lambda>row. get row ''email'' = email) (users w))"

section \<open>Example data\<close>

text \<open>
  The concrete scenario of the specification: a stand-in for the one-way function, a
  database with one document and no user, the request bodies, the state after
  \<open>a@x.com\<close> has registered with the password \<open>secret\<close>, and that state with the
  database unreachable for the next call.
\<close>

definition example_kdf :: "string \<Rightarrow> string \<Rightarrow> string" where
  "example_kdf p salt = rev p"

definition fresh_world :: pg_world where
  "fresh_world =
     \<lparr>users = [],
      document_details =
        [[(''country'', JStr ''US''), (''document_type'', JStr ''visa''), (''fee'', JNum 160)]],
      users_id_seq = 0, failures = [],
      entropy = [''abcdefghijklmnopqrstuv'', ''0123456789012345678901'']\<rparr>"

definition fresh :: "pg_world state" where
  "fresh = \<lparr>world = fresh_world, trace = []\<rparr>"

definition credentials :: "string \<Rightarrow> string \<Rightarrow> request" where
  "credentials email password =
     \<lparr>body = [(''email'', JStr email), (''password'', JStr password)], params = []\<rparr>"

definition document_request :: "string \<Rightarrow> string \<Rightarrow> request" where
  "document_request country type =
     \<lparr>body = [], params = [(''country'', JStr country), (''type'', JStr type)]\<rparr>"

definition registered :: "pg_world state" where
  "registered = snd (register (reference example_kdf) (credentials ''a@x.com'' ''secret'') fresh)"

definition connection_refused :: js_error where
  "connection_refused = \<lparr>code = JStr ''ECONNREFUSED'', message = ''connect ECONNREFUSED''\<rparr>"

definition offline :: "pg_world state" where
  "offline =
     \<lparr>world = (world registered)\<lparr>failures := [Some connection_refused]\<rparr>, trace = []\<rparr>"

section \<open>Unfolding the model\<close>

lemmas effect_defs = genSalt_def hash_def compare_def query_def console_error_def

lemmas handler_defs = register_def register_catch_def login_def login_catch_def
  documents_def documents_catch_def

lemmas part_000_defs = part_000_register_def part_000_register_catch_def part_000_login_def
  part_000_login_catch_def part_000_documents_def part_000_documents_catch_def

lemmas reference_defs = reference_def ref_genSalt_def ref_hash_def ref_compare_def
  pg_query_def pg_execute_def two_digits_def unique_violation_def Let_def

lemmas example_defs = example_kdf_def fresh_world_def fresh_def credentials_def
  document_request_def connection_refused_def

lemma registered_eq:
  "registered =
     \<lparr>world =
        \<lparr>users =
           [[(''id'', JNum 1), (''email'', JStr ''a@x.com''),
             (''password_hash'', JStr ''$2b$10$abcdefghijklmnopqrstuvterces''),
             (''salt'', JStr ''$2b$10$abcdefghijklmnopqrstuv'')]],
         document_details =
           [[(''country'', JStr ''US''), (''document_type'', JStr ''visa''), (''fee'', JNum 160)]],
         users_id_seq = 1, failures = [],
         entropy = [''0123456789012345678901'']\<rparr>,
      trace =
        [GenSalt 10,
         Hash (JStr ''secret'') ''$2b$10$abcdefghijklmnopqrstuv'',
         Query
           ''INSERT INTO users (email, password_hash, salt) VALUES ($1, $2, $3) RETURNING id''
           [JStr ''a@x.com'', JStr ''$2b$10$abcdefghijklmnopqrstuvterces'',
            JStr ''$2b$10$abcdefghijklmnopqrstuv'']]\<rparr>"
  by (simp add: registered_def example_defs register_def get_def effect_defs reference_defs)

lemma offline_eq:
  "offline =
     \<lparr>world =
        \<lparr>users =
           [[(''id'', JNum 1), (''email'', JStr ''a@x.com''),
             (''password_hash'', JStr ''$2b$10$abcdefghijklmnopqrstuvterces''),
             (''salt'', JStr ''$2b$10$abcdefghijklmnopqrstuv'')]],
         document_details =
           [[(''country'', JStr ''US''), (''document_type'', JStr ''visa''), (''fee'', JNum 160)]],
         users_id_seq = 1, failures = [Some connection_refused],
         entropy = [''0123456789012345678901'']\<rparr>,
      trace = []\<rparr>"
  by (simp add: offline_def registered_eq)

section \<open>Login answers an unknown email like a wrong password\<close>

text \<open>
  C1. Take two login requests with non-empty email and password. For the first the lookup
  by email returns no row; for the second it returns a row and \<open>bcrypt.compare\<close> answers
  \<open>false\<close>. Both get the same response, HTTP 401 with the message
  \<open>Invalid email or password.\<close>, from the handler of either source file.
\<close>

theorem login_unknown_email_like_wrong_password:
  assumes "truthy (get (body req) ''email'')" and "truthy (get (body req) ''password'')"
    and "truthy (get (body req') ''email'')" and "truthy (get (body req') ''password'')"
    and "query E ''SELECT * FROM users WHERE email = $1'' [get (body req) ''email''] s
           = (Inr result, s1)"
    and "rows result = []"
    and "query E ''SELECT * FROM users WHERE email = $1'' [get (body req') ''email''] s'
           = (Inr result', s1')"
    and "rows result' = user # others"
    and "compare E (get (body req') ''password'') (get user ''password_hash'') s1'
           = (Inr False, s2')"
  shows "fst (login E req s) = respond 401 [(''message'', JStr ''Invalid email or password.'')]
       \<and> fst (login E req' s') = respond 401 [(''message'', JStr ''Invalid email or password.'')]
       \<and> fst (part_000_login E req s) =
           respond 401 [(''message'', JStr ''Invalid email or password.'')]
       \<and> fst (part_000_login E req' s') =
           respond 401 [(''message'', JStr ''Invalid email or password.'')]"
  using assms by (simp add: login_def part_000_login_def)

theorem login_unknown_email_like_wrong_password_witness:
  "fst (login (reference example_kdf) (credentials ''b@x.com'' ''secret'') registered) =
     respond 401 [(''message'', JStr ''Invalid email or password.'')]
   \<and> fst (login (reference example_kdf) (credentials ''a@x.com'' ''wrong'') registered) =
     respond 401 [(''message'', JStr ''Invalid email or password.'')]
   \<and> fst (part_000_login (reference example_kdf) (credentials ''b@x.com'' ''secret'') registered) =
     respond 401 [(''message'', JStr ''Invalid email or password.'')]
   \<and> fst (part_000_login (reference example_kdf) (credentials ''a@x.com'' ''wrong'') registered) =
     respond 401 [(''message'', JStr ''Invalid email or password.'')]"
proof -
  let ?E = "reference example_kdf"
  let ?sql = "''SELECT * FROM users WHERE email = $1''"
  let ?unknown = "credentials ''b@x.com'' ''secret''"
  let ?wrong = "credentials ''a@x.com'' ''wrong''"
  let ?s1 = "registered\<lparr>trace := trace registered @ [Query ?sql [JStr ''b@x.com'']]\<rparr>"
  let ?s1' = "registered\<lparr>trace := trace registered @ [Query ?sql [JStr ''a@x.com'']]\<rparr>"
  let ?user = "[(''id'', JNum 1), (''email'', JStr ''a@x.com''),
          (''password_hash'', JStr ''$2b$10$abcdefghijklmnopqrstuvterces''),
          (''salt'', JStr ''$2b$10$abcdefghijklmnopqrstuv'')]"
  have t: "truthy (get (body ?unknown) ''email'')" "truthy (get (body ?unknown) ''password'')"
      "truthy (get (body ?wrong) ''email'')" "truthy (get (body ?wrong) ''password'')"
    by (simp_all add: credentials_def get_def)
  have q: "query ?E ?sql [get (body ?unknown) ''email''] registered = (Inr \<lparr>rows = []\<rparr>, ?s1)"
    by (simp add: registered_eq credentials_def get_def query_def reference_defs)
  have q': "query ?E ?sql [get (body ?wrong) ''email''] registered = (Inr \<lparr>rows = [?user]\<rparr>, ?s1')"
    by (simp add: registered_eq credentials_def get_def query_def reference_defs)
  have c: "compare ?E (get (body ?wrong) ''password'') (get ?user ''password_hash'') ?s1'
             = (Inr False,
                snd (compare ?E (get (body ?wrong) ''password'') (get ?user ''password_hash'') ?s1'))"
    by (simp add: registered_eq credentials_def get_def compare_def reference_defs example_kdf_def)
  show ?thesis
    using login_unknown_email_like_wrong_password [OF t q _ q' _ c] by simp
qed

section \<open>Requests without email or password\<close>

text \<open>
  C2. When \<open>email\<close> or \<open>password\<close> is missing or falsy in the request body, the register
  handler and the login handler answer HTTP 400 with the message
  \<open>Email and password are required.\<close> and hand back the state they were given: no call
  is added to the trace and the world is the same, so the datastore is not contacted.
\<close>

theorem missing_fields_rejected_without_datastore:
  assumes "\<not> truthy (get (body req) ''email'') \<or> \<not> truthy (get (body req) ''password'')"
  shows "register E req s =
           (respond 400 [(''message'', JStr ''Email and password are required.'')], s)
       \<and> login E req s =
           (respond 400 [(''message'', JStr ''Email and password are required.'')], s)"
  using assms by (auto simp add: register_def login_def)

theorem missing_fields_rejected_without_datastore_witness:
  "register (reference example_kdf) \<lparr>body = [(''email'', JStr ''a@x.com'')], params = []\<rparr> registered
     = (respond 400 [(''message'', JStr ''Email and password are required.'')], registered)
   \<and> login (reference example_kdf) \<lparr>body = [(''email'', JStr ''a@x.com'')], params = []\<rparr> registered
     = (respond 400 [(''message'', JStr ''Email and password are required.'')], registered)"
proof -
  have "\<not> truthy (get (body \<lparr>body = [(''email'', JStr ''a@x.com'')], params = []\<rparr>) ''email'')
      \<or> \<not> truthy (get (body \<lparr>body = [(''email'', JStr ''a@x.com'')], params = []\<rparr>) ''password'')"
    by (simp add: get_def)
  from missing_fields_rejected_without_datastore [OF this]
  show ?thesis by blast
qed

section \<open>What every request leaves alone\<close>

lemma genSalt_stable: "stable R E \<Longrightarrow> genSalt E rounds s = (r, s1) \<Longrightarrow> R (world s) (world s1)"
  by (auto simp add: stable_def genSalt_def split: prod.splits) (metis snd_conv)

lemma hash_stable: "stable R E \<Longrightarrow> hash E data salt s = (r, s1) \<Longrightarrow> R (world s) (world s1)"
  by (auto simp add: stable_def hash_def split: prod.splits) (metis snd_conv)

lemma compare_stable:
  "stable R E \<Longrightarrow> compare E data encrypted s = (r, s1) \<Longrightarrow> R (world s) (world s1)"
  by (auto simp add: stable_def compare_def split: prod.splits) (metis snd_conv)

lemma query_stable: "stable R E \<Longrightarrow> query E sql vals s = (r, s1) \<Longrightarrow> R (world s) (world s1)"
  by (auto simp add: stable_def query_def split: prod.splits) (metis snd_conv)

lemma world_console_error [simp]: "world (console_error label error s) = world s"
  by (simp add: console_error_def)

lemma world_register_catch [simp]: "world (snd (register_catch error s)) = world s"
  by (simp add: register_catch_def Let_def)

lemma world_login_catch [simp]: "world (snd (login_catch error s)) = world s"
  by (simp add: login_catch_def Let_def)

lemma world_documents_catch [simp]: "world (snd (documents_catch error s)) = world s"
  by (simp add: documents_catch_def Let_def)

lemma register_stable:
  assumes "reflp R" and "transp R" and "stable R E"
  shows "R (world s) (world (snd (register E req s)))"
proof -
  note r = reflpD [OF assms(1)] and t = transpD [OF assms(2)]
  note g = genSalt_stable [OF assms(3)] and h = hash_stable [OF assms(3)]
    and q = query_stable [OF assms(3)]
  show ?thesis
    unfolding register_def Let_def
    by (auto split: prod.split sum.split list.split intro: r g t [OF g h] t [OF g t [OF h q]])
qed

lemma login_stable:
  assumes "reflp R" and "transp R" and "stable R E"
  shows "R (world s) (world (snd (login E req s)))"
proof -
  note r = reflpD [OF assms(1)] and t = transpD [OF assms(2)]
  note c = compare_stable [OF assms(3)] and q = query_stable [OF assms(3)]
  show ?thesis
    unfolding login_def Let_def
    by (auto split: prod.split sum.split list.split intro: r q t [OF q c])
qed

lemma documents_stable:
  assumes "reflp R" and "transp R" and "stable R E"
  shows "R (world s) (world (snd (documents E req s)))"
proof -
  note r = reflpD [OF assms(1)] and q = query_stable [OF assms(3)]
  show ?thesis
    unfolding documents_def Let_def
    by (auto split: prod.split sum.split list.split intro: r q)
qed

lemma app_stable:
  assumes "reflp R" and "transp R" and "stable R E"
  shows "R (world s) (world (snd (app E r s)))"
proof (cases r)
  case (Pair ep req)
  then show ?thesis
    by (cases ep) (simp_all add: register_stable login_stable documents_stable assms)
qed

lemma serve_stable:
  assumes "reflp R" and "transp R" and "stable R E"
  shows "R (world s) (world (snd (serve E rs s)))"
proof (induction rs arbitrary: s)
  case Nil
  show ?case by (simp add: reflpD [OF assms(1)])
next
  case (Cons r rs)
  obtain res s1 where a: "app E r s = (res, s1)" by (cases "app E r s")
  obtain ress s2 where b: "serve E rs s1 = (ress, s2)" by (cases "serve E rs s1")
  have "R (world s) (world s1)" using app_stable [OF assms, of s r] a by simp
  moreover have "R (world s1) (world s2)" using Cons.IH [of s1] b by simp
  ultimately show ?case using a b by (simp add: transpD [OF assms(2)])
qed

section \<open>The reference datastore and primitive\<close>

lemma pg_execute_users:
  assumes "pg_execute sql vals w = (r, w')"
  shows "users w' = users w \<or>
    (\<exists>email password_hash salt id.
        sql = ''INSERT INTO users (email, password_hash, salt) VALUES ($1, $2, $3) RETURNING id'' \<and>
        vals = [email, password_hash, salt] \<and> r = Inr \<lparr>rows = [[(''id'', id)]]\<rparr> \<and>
        \<not> list_ex (\<lambda>row. get row ''email'' = email) (users w) \<and>
        users w' = users w @ [[(''id'', id), (''email'', email),
                               (''password_hash'', password_hash), (''salt'', salt)]])"
  using assms unfolding pg_execute_def Let_def
  by (auto split: if_splits list.splits)

lemma pg_query_users:
  assumes "pg_query sql vals w = (r, w')"
  shows "users w' = users w \<or>
    (\<exists>email password_hash salt id.
        sql = ''INSERT INTO users (email, password_hash, salt) VALUES ($1, $2, $3) RETURNING id'' \<and>
        vals = [email, password_hash, salt] \<and> r = Inr \<lparr>rows = [[(''id'', id)]]\<rparr> \<and>
        \<not> list_ex (\<lambda>row. get row ''email'' = email) (users w) \<and>
        users w' = users w @ [[(''id'', id), (''email'', email),
                               (''password_hash'', password_hash), (''salt'', salt)]])"
proof (cases "failures w")
  case Nil
  then show ?thesis using assms pg_execute_users [of sql vals w r w'] by (simp add: pg_query_def)
next
  case (Cons f rest)
  show ?thesis
  proof (cases f)
    case None
    then show ?thesis
      using assms Cons pg_execute_users [of sql vals "w\<lparr>failures := rest\<rparr>" r w']
      by (simp add: pg_query_def)
  next
    case (Some error)
    then show ?thesis using assms Cons by (auto simp add: pg_query_def)
  qed
qed

lemma pg_query_rejected: "pg_query sql vals w = (Inl error, w') \<Longrightarrow> users w' = users w"
  using pg_query_users [of sql vals w "Inl error" w'] by auto

lemma pg_execute_entropy [simp]: "entropy (snd (pg_execute sql vals w)) = entropy w"
  by (simp add: pg_execute_def Let_def split: list.split)

lemma pg_query_entropy [simp]: "entropy (snd (pg_query sql vals w)) = entropy w"
  by (simp add: pg_query_def split: list.split option.split)

lemma users_ref_genSalt [simp]: "users (snd (ref_genSalt rounds w)) = users w"
  by (simp add: ref_genSalt_def split: list.split)

lemma snd_ref_hash [simp]: "snd (ref_hash kdf data salt w) = w"
  by (simp add: ref_hash_def split: jsval.split)

lemma snd_ref_compare [simp]: "snd (ref_compare kdf data encrypted w) = w"
  by (simp add: ref_compare_def split: jsval.split)

lemma rows_kept_order: "reflp rows_kept" "transp rows_kept"
  by (auto simp add: rows_kept_def reflp_def transp_def)

lemma account_kept_order: "reflp (account_kept email)" "transp (account_kept email)"
  by (auto simp add: account_kept_def reflp_def transp_def)

lemma reference_rows_kept: "stable rows_kept (reference kdf)"
proof -
  have "rows_kept w (snd (pg_query sql vals w))" for sql vals w
    using pg_query_users [of sql vals w "fst (pg_query sql vals w)" "snd (pg_query sql vals w)"]
    by (auto simp add: rows_kept_def)
  then show ?thesis
    by (simp add: stable_def reference_def rows_kept_def)
qed

lemma reference_account_kept: "stable (account_kept email) (reference kdf)"
proof -
  have "account_kept email w (snd (pg_query sql vals w))" for sql vals w
    using pg_query_users [of sql vals w "fst (pg_query sql vals w)" "snd (pg_query sql vals w)"]
    by (auto simp add: account_kept_def list_ex_iff filter_empty_conv get_def)
  then show ?thesis
    by (simp add: stable_def reference_def account_kept_def)
qed

lemma ref_genSalt_accepted:
  assumes "genSalt (reference kdf) rounds s = (Inr salt, s1)"
  shows "\<exists>r rest. entropy (world s) = r # rest \<and> salt = ''$2b$'' @ two_digits rounds @ ''$'' @ r
           \<and> world s1 = (world s)\<lparr>entropy := rest\<rparr> \<and> trace s1 = trace s @ [GenSalt rounds]"
  using assms
  by (auto simp add: genSalt_def reference_def ref_genSalt_def split: list.splits)

lemma ref_hash_accepted:
  assumes "hash (reference kdf) data salt s = (Inr h, s1)"
  shows "\<exists>p. data = JStr p \<and> length salt = 29 \<and> h = salt @ kdf p salt \<and> world s1 = world s"
  using assms
  by (auto simp add: hash_def reference_def ref_hash_def split: jsval.splits if_splits)

lemma ref_insert_accepted:
  assumes "query (reference kdf)
             ''INSERT INTO users (email, password_hash, salt) VALUES ($1, $2, $3) RETURNING id''
             [email, password_hash, salt] s = (Inr result, s1)"
  shows "\<exists>id. rows result = [[(''id'', id)]] \<and>
           users (world s1) = users (world s) @
             [[(''id'', id), (''email'', email), (''password_hash'', password_hash), (''salt'', salt)]] \<and>
           filter (\<lambda>row. get row ''email'' = email) (users (world s)) = [] \<and>
           entropy (world s1) = entropy (world s)"
proof -
  obtain w1 where q: "pg_query
      ''INSERT INTO users (email, password_hash, salt) VALUES ($1, $2, $3) RETURNING id''
      [email, password_hash, salt] (world s) = (Inr result, w1)" and w: "world s1 = w1"
    using assms by (auto simp add: query_def reference_def split: prod.splits)
  have "list_ex (\<lambda>row. get row ''email'' = email) (users (world s)) \<Longrightarrow> False"
    using q by (auto simp add: pg_query_def pg_execute_def Let_def split: list.splits option.splits)
  moreover have "users w1 \<noteq> users (world s)"
    using q
    by (auto simp add: pg_query_def pg_execute_def Let_def
        split: list.splits option.splits if_splits)
  moreover have "entropy w1 = entropy (world s)"
    using pg_query_entropy [of
      "''INSERT INTO users (email, password_hash, salt) VALUES ($1, $2, $3) RETURNING id''"
      "[email, password_hash, salt]" "world s"] q by simp
  ultimately show ?thesis
    using pg_query_users [OF q] w by (auto simp add: list_ex_iff filter_empty_conv)
qed

lemma ref_login_accepted:
  assumes "truthy email" and "get (body req) ''email'' = email"
    and "get (body req) ''password'' = JStr p"  and "p \<noteq> []"
    and "filter (\<lambda>row. get row ''email'' = email) (users (world s)) = user # others"
    and "get user ''password_hash'' = JStr (salt @ kdf p salt)" and "length salt = 29"
    and "failures (world s) = [] \<or> hd (failures (world s)) = None"
  shows "fst (login (reference kdf) req s) = respond 200 [(''message'', JStr ''Login successful!'')]"
proof (cases "failures (world s)")
  case Nil
  then show ?thesis using assms(1-7)
    by (simp add: login_def query_def compare_def reference_def pg_query_def pg_execute_def
        ref_compare_def)
next
  case (Cons f rest)
  then have "f = None" using assms(8) by simp
  then show ?thesis using assms(1-7) Cons
    by (simp add: login_def query_def compare_def reference_def pg_query_def pg_execute_def
        ref_compare_def)
qed

section \<open>Register, then login\<close>

text \<open>
  C3. Take a registration with non-empty email and password whose insert does not fail
  (the salt was generated, the password hashed, and the \<open>INSERT\<close> returned a result),
  against the reference datastore and primitive. The response is HTTP 201 and its
  \<open>userId\<close> is the \<open>id\<close> of the row the datastore stored. After any further requests,
  a login with the same email and password whose lookup the datastore answers returns
  HTTP 200.
\<close>

theorem register_then_login:
  assumes "truthy (get (body req) ''email'')" and "truthy (get (body req) ''password'')"
    and "genSalt (reference kdf) 10 s = (Inr salt, s1)"
    and "hash (reference kdf) (get (body req) ''password'') salt s1 = (Inr passwordHash, s2)"
    and "query (reference kdf)
           ''INSERT INTO users (email, password_hash, salt) VALUES ($1, $2, $3) RETURNING id''
           [get (body req) ''email'', JStr passwordHash, JStr salt] s2 = (Inr result, s3)"
    and "serve (reference kdf) later s3 = (responses, s4)"
    and "failures (world s4) = [] \<or> hd (failures (world s4)) = None"
  shows "\<exists>id. register (reference kdf) req s =
               (respond 201 [(''message'', JStr ''User registered successfully!''),
                             (''userId'', id)], s3)
            \<and> last (users (world s3)) =
                [(''id'', id), (''email'', get (body req) ''email''),
                 (''password_hash'', JStr passwordHash), (''salt'', JStr salt)]
            \<and> fst (login (reference kdf) req s4) =
                respond 200 [(''message'', JStr ''Login successful!'')]"
proof -
  let ?email = "get (body req) ''email''"
  let ?mine = "\<lambda>row. get row ''email'' = ?email"
  obtain p where p: "get (body req) ''password'' = JStr p" and salt: "length salt = 29"
    and h: "passwordHash = salt @ kdf p salt"
    using ref_hash_accepted [OF assms(4)] by blast
  obtain id where rows: "rows result = [[(''id'', id)]]"
    and users: "users (world s3) = users (world s2) @
       [[(''id'', id), (''email'', ?email), (''password_hash'', JStr passwordHash),
         (''salt'', JStr salt)]]"
    and new: "filter ?mine (users (world s2)) = []"
    using ref_insert_accepted [OF assms(5)] by blast
  let ?row = "[(''id'', id), (''email'', ?email), (''password_hash'', JStr passwordHash),
         (''salt'', JStr salt)]"
  have reg: "register (reference kdf) req s =
      (respond 201 [(''message'', JStr ''User registered successfully!''), (''userId'', id)], s3)"
    using assms(1-5) rows by (simp add: register_def get_def)
  have mine3: "filter ?mine (users (world s3)) = [?row]"
    using users new by (simp add: get_def)
  have "account_kept ?email (world s3) (world s4)"
    using serve_stable [OF account_kept_order reference_account_kept, of ?email s3 kdf later]
      assms(6) by simp
  then have mine4: "filter ?mine (users (world s4)) = [?row]"
    using mine3 by (simp add: account_kept_def)
  have "p \<noteq> []" using assms(2) p by simp
  then have "fst (login (reference kdf) req s4) =
      respond 200 [(''message'', JStr ''Login successful!'')]"
    using ref_login_accepted [OF assms(1) refl p _ mine4 _ salt assms(7)] h
    by (simp add: get_def)
  then show ?thesis using reg users by simp
qed

theorem register_then_login_witness:
  "register (reference example_kdf) (credentials ''a@x.com'' ''secret'') fresh =
     (respond 201 [(''message'', JStr ''User registered successfully!''), (''userId'', JNum 1)],
      registered)
   \<and> fst (login (reference example_kdf) (credentials ''a@x.com'' ''secret'')
           (snd (serve (reference example_kdf)
                   [(PostRegister, credentials ''a@x.com'' ''other''),
                    (PostLogin, credentials ''a@x.com'' ''wrong'')] registered))) =
       respond 200 [(''message'', JStr ''Login successful!'')]"
proof -
  let ?E = "reference example_kdf"
  let ?req = "credentials ''a@x.com'' ''secret''"
  let ?later = "[(PostRegister, credentials ''a@x.com'' ''other''),
                 (PostLogin, credentials ''a@x.com'' ''wrong'')]"
  let ?salt = "''$2b$10$abcdefghijklmnopqrstuv''"
  let ?hash = "''$2b$10$abcdefghijklmnopqrstuvterces''"
  let ?s1 = "snd (genSalt ?E 10 fresh)"
  let ?s2 = "snd (hash ?E (get (body ?req) ''password'') ?salt ?s1)"
  have t: "truthy (get (body ?req) ''email'')" "truthy (get (body ?req) ''password'')"
    by (simp_all add: credentials_def get_def)
  have g: "genSalt ?E 10 fresh = (Inr ?salt, ?s1)"
    by (simp add: example_defs genSalt_def reference_defs)
  have h: "hash ?E (get (body ?req) ''password'') ?salt ?s1 = (Inr ?hash, ?s2)"
    by (simp add: example_defs get_def genSalt_def hash_def reference_defs)
  have q: "query ?E
      ''INSERT INTO users (email, password_hash, salt) VALUES ($1, $2, $3) RETURNING id''
      [get (body ?req) ''email'', JStr ?hash, JStr ?salt] ?s2
      = (Inr \<lparr>rows = [[(''id'', JNum 1)]]\<rparr>, registered)"
    by (simp add: registered_eq example_defs get_def effect_defs reference_defs)
  have l: "serve ?E ?later registered =
      (fst (serve ?E ?later registered), snd (serve ?E ?later registered))"
    by simp
  have f: "failures (world (snd (serve ?E ?later registered))) = []
      \<or> hd (failures (world (snd (serve ?E ?later registered)))) = None"
    by (simp add: registered_eq example_defs get_def handler_defs effect_defs reference_defs)
  show ?thesis
    using register_then_login [OF t g h q l f] by (auto simp add: registered_eq)
qed

section \<open>A rejected insert\<close>

lemma register_insert_rejected:
  assumes "truthy (get (body req) ''email'')" and "truthy (get (body req) ''password'')"
    and "genSalt E 10 s = (Inr salt, s1)"
    and "hash E (get (body req) ''password'') salt s1 = (Inr passwordHash, s2)"
    and "query E
           ''INSERT INTO users (email, password_hash, salt) VALUES ($1, $2, $3) RETURNING id''
           [get (body req) ''email'', JStr passwordHash, JStr salt] s2 = (Inl error, s3)"
  shows "register E req s = register_catch error s3"
    and "part_000_register E req s = part_000_register_catch error s3"
  using assms by (simp_all add: register_def part_000_register_def)

text \<open>
  C4, as the claim states it, fails on \<open>src/server.js\<close>: registering \<open>a@x.com\<close> a second
  time is answered with HTTP 409, but the message is
  \<open>Email already exists. Please use a different email.\<close>, not \<open>Email already exists.\<close>
\<close>

theorem duplicate_email_message_counterexample:
  "fst (register (reference example_kdf) (credentials ''a@x.com'' ''secret'') registered) =
     respond 409 [(''message'', JStr ''Email already exists. Please use a different email.'')]
   \<and> get (json (fst (register (reference example_kdf) (credentials ''a@x.com'' ''secret'')
                      registered))) ''message'' \<noteq> JStr ''Email already exists.''"
  by (simp add: registered_eq example_defs get_def handler_defs effect_defs reference_defs
      respond_def)

text \<open>
  C4, amended. When the insert of a registration is rejected with an error whose code is
  \<open>23505\<close>, the handler answers HTTP 409, with the message
  \<open>Email already exists. Please use a different email.\<close> in \<open>src/server.js\<close> and
  \<open>Email already exists.\<close> in \<open>src/unnamed/part_000\<close>; with any other code it answers
  HTTP 500. In both cases it only logs the error after the rejected insert, and in the
  reference datastore the \<open>users\<close> table is then what it was before the request.
\<close>

theorem duplicate_email_conflict:
  assumes "truthy (get (body req) ''email'')" and "truthy (get (body req) ''password'')"
    and "genSalt E 10 s = (Inr salt, s1)"
    and "hash E (get (body req) ''password'') salt s1 = (Inr passwordHash, s2)"
    and "query E
           ''INSERT INTO users (email, password_hash, salt) VALUES ($1, $2, $3) RETURNING id''
           [get (body req) ''email'', JStr passwordHash, JStr salt] s2 = (Inl error, s3)"
  shows "register E req s =
           (if code error = JStr ''23505''
            then respond 409
                   [(''message'', JStr ''Email already exists. Please use a different email.'')]
            else respond 500 [(''message'', JStr ''Internal server error during registration.'')],
            console_error ''Error during registration:'' error s3)
       \<and> part_000_register E req s =
           (if code error = JStr ''23505''
            then respond 409 [(''message'', JStr ''Email already exists.'')]
            else respond 500 [(''message'', JStr ''Internal server error during registration.'')],
            console_error ''Error during registration:'' error s3)
       \<and> (\<forall>kdf. E = reference kdf \<longrightarrow> users (world s3) = users (world s))"
proof -
  have "users (world s3) = users (world s)" if "E = reference kdf" for kdf
  proof -
    have "users (world s1) = users (world s)"
      using assms(3) that by (auto simp add: genSalt_def reference_def split: prod.splits)
        (metis snd_conv users_ref_genSalt)
    moreover have "world s2 = world s1"
      using assms(4) that ref_hash_accepted by blast
    moreover have "users (world s3) = users (world s2)"
      using assms(5) that pg_query_rejected
      by (auto simp add: query_def reference_def split: prod.splits)
    ultimately show ?thesis by simp
  qed
  then show ?thesis
    using register_insert_rejected [OF assms]
    by (simp add: register_catch_def part_000_register_catch_def Let_def)
qed

theorem duplicate_email_conflict_witness:
  "fst (register (reference example_kdf) (credentials ''a@x.com'' ''other'') registered) =
     respond 409 [(''message'', JStr ''Email already exists. Please use a different email.'')]
   \<and> fst (part_000_register (reference example_kdf) (credentials ''a@x.com'' ''other'') registered) =
     respond 409 [(''message'', JStr ''Email already exists.'')]
   \<and> users (world (snd (register (reference example_kdf) (credentials ''a@x.com'' ''other'')
                          registered))) = users (world registered)"
proof -
  let ?E = "reference example_kdf"
  let ?req = "credentials ''a@x.com'' ''other''"
  let ?salt = "''$2b$10$0123456789012345678901''"
  let ?hash = "''$2b$10$0123456789012345678901rehto''"
  let ?insert = "''INSERT INTO users (email, password_hash, salt) VALUES ($1, $2, $3) RETURNING id''"
  let ?s1 = "snd (genSalt ?E 10 registered)"
  let ?s2 = "snd (hash ?E (get (body ?req) ''password'') ?salt ?s1)"
  let ?s3 = "snd (query ?E ?insert [get (body ?req) ''email'', JStr ?hash, JStr ?salt] ?s2)"
  have t: "truthy (get (body ?req) ''email'')" "truthy (get (body ?req) ''password'')"
    by (simp_all add: credentials_def get_def)
  have g: "genSalt ?E 10 registered = (Inr ?salt, ?s1)"
    by (simp add: registered_eq genSalt_def reference_defs)
  have h: "hash ?E (get (body ?req) ''password'') ?salt ?s1 = (Inr ?hash, ?s2)"
    by (simp add: registered_eq example_defs get_def genSalt_def hash_def reference_defs)
  have q: "query ?E ?insert [get (body ?req) ''email'', JStr ?hash, JStr ?salt] ?s2
      = (Inl unique_violation, ?s3)"
    by (simp add: registered_eq example_defs get_def effect_defs reference_defs)
  have c: "code unique_violation = JStr ''23505''"
    by (simp add: unique_violation_def)
  show ?thesis
    using duplicate_email_conflict [OF t g h q] c by simp
qed

section \<open>The stored user row\<close>

lemma register_created:
  assumes "register E req s = (res, s')" and "status res = 201"
  shows "\<exists>salt s1 passwordHash s2 result s3.
           truthy (get (body req) ''email'') \<and> truthy (get (body req) ''password'') \<and>
           genSalt E 10 s = (Inr salt, s1) \<and>
           hash E (get (body req) ''password'') salt s1 = (Inr passwordHash, s2) \<and>
           query E
             ''INSERT INTO users (email, password_hash, salt) VALUES ($1, $2, $3) RETURNING id''
             [get (body req) ''email'', JStr passwordHash, JStr salt] s2 = (Inr result, s3) \<and>
           s' = s3"
  using assms unfolding register_def Let_def register_catch_def
  by (auto simp add: respond_def split: prod.splits sum.splits list.splits if_splits)

text \<open>
  C5. After a registration answered with HTTP 201 against the reference datastore and
  primitive, the \<open>users\<close> table is the old one followed by one new row. The row holds the
  \<open>id\<close> the datastore assigned, the email of the request, the hash of the password under
  a salt of cost factor 10 that \<open>genSalt\<close> drew from the random source during this request
  (and that is used up), and that salt. The handler called \<open>genSalt(10)\<close>, \<open>hash\<close> and
  one \<open>INSERT\<close> whose three values are the email, the hash and the salt: the plaintext
  password is handed to \<open>hash\<close> only and is no column of the row.
\<close>

theorem stored_user_row:
  assumes "register (reference kdf) req s = (res, s')" and "status res = 201"
  shows "\<exists>p r rest id.
           get (body req) ''password'' = JStr p \<and> entropy (world s) = r # rest \<and>
           entropy (world s') = rest \<and>
           users (world s') = users (world s) @
             [[(''id'', id), (''email'', get (body req) ''email''),
               (''password_hash'', JStr ((''$2b$10$'' @ r) @ kdf p (''$2b$10$'' @ r))),
               (''salt'', JStr (''$2b$10$'' @ r))]] \<and>
           trace s' = trace s @
             [GenSalt 10, Hash (JStr p) (''$2b$10$'' @ r),
              Query ''INSERT INTO users (email, password_hash, salt) VALUES ($1, $2, $3) RETURNING id''
                [get (body req) ''email'',
                 JStr ((''$2b$10$'' @ r) @ kdf p (''$2b$10$'' @ r)), JStr (''$2b$10$'' @ r)]]"
proof -
  obtain salt s1 passwordHash s2 result s3 where
    g: "genSalt (reference kdf) 10 s = (Inr salt, s1)" and
    h: "hash (reference kdf) (get (body req) ''password'') salt s1 = (Inr passwordHash, s2)" and
    q: "query (reference kdf)
          ''INSERT INTO users (email, password_hash, salt) VALUES ($1, $2, $3) RETURNING id''
          [get (body req) ''email'', JStr passwordHash, JStr salt] s2 = (Inr result, s3)" and
    s': "s' = s3"
    using register_created [OF assms] by blast
  obtain r rest where r: "entropy (world s) = r # rest" and salt: "salt = ''$2b$10$'' @ r"
    and w1: "world s1 = (world s)\<lparr>entropy := rest\<rparr>" and t1: "trace s1 = trace s @ [GenSalt 10]"
    using ref_genSalt_accepted [OF g] by (auto simp add: two_digits_def)
  obtain p where p: "get (body req) ''password'' = JStr p" and ph: "passwordHash = salt @ kdf p salt"
    and w2: "world s2 = world s1"
    using ref_hash_accepted [OF h] by blast
  have t2: "trace s2 = trace s1 @ [Hash (JStr p) salt]"
    using h p by (auto simp add: hash_def split: prod.splits)
  obtain id where users: "users (world s3) = users (world s2) @
      [[(''id'', id), (''email'', get (body req) ''email''),
        (''password_hash'', JStr passwordHash), (''salt'', JStr salt)]]"
    and e3: "entropy (world s3) = entropy (world s2)"
    using ref_insert_accepted [OF q] by blast
  have t3: "trace s3 = trace s2 @
      [Query ''INSERT INTO users (email, password_hash, salt) VALUES ($1, $2, $3) RETURNING id''
         [get (body req) ''email'', JStr passwordHash, JStr salt]]"
    using q by (auto simp add: query_def split: prod.splits)
  show ?thesis
    using p r users e3 t1 t2 t3 w1 w2 s' salt ph by simp
qed

theorem stored_user_row_witness:
  "users (world registered) =
     [[(''id'', JNum 1), (''email'', JStr ''a@x.com''),
       (''password_hash'', JStr (''$2b$10$abcdefghijklmnopqrstuv'' @
          example_kdf ''secret'' ''$2b$10$abcdefghijklmnopqrstuv'')),
       (''salt'', JStr ''$2b$10$abcdefghijklmnopqrstuv'')]]
   \<and> entropy (world registered) = [''0123456789012345678901'']"
proof -
  let ?E = "reference example_kdf"
  let ?req = "credentials ''a@x.com'' ''secret''"
  have r: "register ?E ?req fresh = (fst (register ?E ?req fresh), registered)"
    by (simp add: registered_def)
  have s: "status (fst (register ?E ?req fresh)) = 201"
    by (simp add: example_defs get_def handler_defs effect_defs reference_defs respond_def)
  show ?thesis
    using stored_user_row [OF r s]
    by (auto simp add: example_defs get_def registered_eq)
qed

section \<open>Login does not read the salt column\<close>

text \<open>
  C6. Rewrite every row the datastore returns in any way that keeps its \<open>password_hash\<close>
  (set, change or drop the \<open>salt\<close> column, for one): login gives the same response, issues
  the same calls and leaves the same world. The password is verified against
  \<open>password_hash\<close> alone; the \<open>salt\<close> column is never read.
\<close>

theorem login_ignores_salt_column:
  assumes "\<forall>row. get (f row) ''password_hash'' = get row ''password_hash''"
  shows "login (map_rows f E) req s = login E req s"
proof -
  have c: "compare (map_rows f E) = compare E"
    by (simp add: fun_eq_iff compare_def map_rows_def)
  show ?thesis
    unfolding login_def Let_def c
    using assms
    by (auto simp add: query_def map_rows_def split: prod.split sum.split list.split)
qed

theorem login_ignores_salt_column_witness:
  "login (map_rows (\<lambda>row. (''salt'', JNull) # row) (reference example_kdf))
     (credentials ''a@x.com'' ''secret'') registered =
   login (reference example_kdf) (credentials ''a@x.com'' ''secret'') registered
   \<and> fst (login (reference example_kdf) (credentials ''a@x.com'' ''secret'') registered) =
       respond 200 [(''message'', JStr ''Login successful!'')]"
proof -
  have "\<forall>row. get ((''salt'', JNull) # row) ''password_hash'' = get row ''password_hash''"
    by (simp add: get_def)
  from login_ignores_salt_column [of "\<lambda>row. (''salt'', JNull) # row", OF this]
  have "login (map_rows (\<lambda>row. (''salt'', JNull) # row) (reference example_kdf))
     (credentials ''a@x.com'' ''secret'') registered =
   login (reference example_kdf) (credentials ''a@x.com'' ''secret'') registered" .
  moreover have "fst (login (reference example_kdf) (credentials ''a@x.com'' ''secret'') registered) =
       respond 200 [(''message'', JStr ''Login successful!'')]"
    by (simp add: registered_eq example_defs get_def handler_defs effect_defs reference_defs)
  ultimately show ?thesis by (rule conjI)
qed

section \<open>Failures of the collaborators\<close>

lemma register_statuses: "status (fst (register E req s)) \<in> {201, 400, 409, 500}"
  unfolding register_def Let_def register_catch_def
  by (auto simp add: respond_def split: prod.split sum.split list.split)

lemma login_statuses: "status (fst (login E req s)) \<in> {200, 400, 401, 500}"
  unfolding login_def Let_def login_catch_def
  by (auto simp add: respond_def split: prod.split sum.split list.split)

lemma documents_statuses: "status (fst (documents E req s)) \<in> {200, 404, 500}"
  unfolding documents_def Let_def documents_catch_def
  by (auto simp add: respond_def split: prod.split sum.split list.split)

lemma login_lookup_rejected:
  assumes "truthy (get (body req) ''email'')" and "truthy (get (body req) ''password'')"
    and "query E ''SELECT * FROM users WHERE email = $1'' [get (body req) ''email''] s
           = (Inl error, s1)"
  shows "login E req s = login_catch error s1"
  using assms by (simp add: login_def)

lemma documents_lookup_rejected:
  assumes "query E ''SELECT * FROM document_details WHERE country = $1 AND document_type = $2''
             [get (params req) ''country'', get (params req) ''type''] s = (Inl error, s1)"
  shows "documents E req s = documents_catch error s1"
  using assms by (simp add: documents_def)

text \<open>
  C7. Whatever the collaborators do, each of the three handlers answers, with one of the
  statuses 200, 201, 400, 401, 404, 409 and 500. When the datastore call of a request is
  rejected, registration answers 409 or 500 and login and document lookup answer 500, each
  with a fixed message that holds nothing of the error.
\<close>

theorem datastore_failures_are_answered:
  "status (fst (app E (endpoint, req) s)) \<in> {200, 201, 400, 401, 404, 409, 500}
   \<and> (truthy (get (body req) ''email'') \<and> truthy (get (body req) ''password'') \<and>
      genSalt E 10 s = (Inr salt, s1) \<and>
      hash E (get (body req) ''password'') salt s1 = (Inr passwordHash, s2) \<and>
      query E
        ''INSERT INTO users (email, password_hash, salt) VALUES ($1, $2, $3) RETURNING id''
        [get (body req) ''email'', JStr passwordHash, JStr salt] s2 = (Inl error, s3) \<longrightarrow>
      fst (register E req s) \<in>
        {respond 409 [(''message'', JStr ''Email already exists. Please use a different email.'')],
         respond 500 [(''message'', JStr ''Internal server error during registration.'')]})
   \<and> (truthy (get (body req) ''email'') \<and> truthy (get (body req) ''password'') \<and>
      query E ''SELECT * FROM users WHERE email = $1'' [get (body req) ''email''] s
        = (Inl error', t1) \<longrightarrow>
      fst (login E req s) = respond 500 [(''message'', JStr ''Internal server error during login.'')])
   \<and> (query E ''SELECT * FROM document_details WHERE country = $1 AND document_type = $2''
        [get (params req) ''country'', get (params req) ''type''] s = (Inl error'', u1) \<longrightarrow>
      fst (documents E req s) =
        respond 500 [(''message'', JStr ''Internal server error fetching document details.'')])"
proof -
  have "status (fst (app E (endpoint, req) s)) \<in> {200, 201, 400, 401, 404, 409, 500}"
    using register_statuses [of E req s] login_statuses [of E req s]
      documents_statuses [of E req s]
    by (cases endpoint) auto
  then show ?thesis
    by (auto simp add: register_insert_rejected login_lookup_rejected documents_lookup_rejected
        register_catch_def login_catch_def documents_catch_def Let_def)
qed

theorem datastore_failures_are_answered_witness:
  "fst (register (reference example_kdf) (credentials ''b@x.com'' ''hunter2'') offline) \<in>
     {respond 409 [(''message'', JStr ''Email already exists. Please use a different email.'')],
      respond 500 [(''message'', JStr ''Internal server error during registration.'')]}
   \<and> fst (login (reference example_kdf) (credentials ''a@x.com'' ''secret'') offline) =
       respond 500 [(''message'', JStr ''Internal server error during login.'')]
   \<and> fst (documents (reference example_kdf) (document_request ''US'' ''visa'') offline) =
       respond 500 [(''message'', JStr ''Internal server error fetching document details.'')]"
proof -
  let ?E = "reference example_kdf"
  let ?new = "credentials ''b@x.com'' ''hunter2''"
  let ?old = "credentials ''a@x.com'' ''secret''"
  let ?doc = "document_request ''US'' ''visa''"
  let ?salt = "''$2b$10$0123456789012345678901''"
  let ?hash = "''$2b$10$01234567890123456789012retnuh''"
  let ?insert = "''INSERT INTO users (email, password_hash, salt) VALUES ($1, $2, $3) RETURNING id''"
  let ?users = "''SELECT * FROM users WHERE email = $1''"
  let ?details = "''SELECT * FROM document_details WHERE country = $1 AND document_type = $2''"
  let ?s1 = "snd (genSalt ?E 10 offline)"
  let ?s2 = "snd (hash ?E (get (body ?new) ''password'') ?salt ?s1)"
  let ?s3 = "snd (query ?E ?insert [get (body ?new) ''email'', JStr ?hash, JStr ?salt] ?s2)"
  let ?t1 = "snd (query ?E ?users [get (body ?old) ''email''] offline)"
  let ?u1 = "snd (query ?E ?details [get (params ?doc) ''country'', get (params ?doc) ''type'']
                    offline)"
  have t: "truthy (get (body ?new) ''email'')" "truthy (get (body ?new) ''password'')"
      "truthy (get (body ?old) ''email'')" "truthy (get (body ?old) ''password'')"
    by (simp_all add: credentials_def get_def)
  have g: "genSalt ?E 10 offline = (Inr ?salt, ?s1)"
    by (simp add: offline_eq genSalt_def reference_defs)
  have h: "hash ?E (get (body ?new) ''password'') ?salt ?s1 = (Inr ?hash, ?s2)"
    by (simp add: offline_eq example_defs get_def genSalt_def hash_def reference_defs)
  have q: "query ?E ?insert [get (body ?new) ''email'', JStr ?hash, JStr ?salt] ?s2
      = (Inl connection_refused, ?s3)"
    by (simp add: offline_eq credentials_def example_kdf_def get_def effect_defs reference_defs)
  have l: "query ?E ?users [get (body ?old) ''email''] offline = (Inl connection_refused, ?t1)"
    by (simp add: offline_eq credentials_def get_def query_def reference_defs)
  have d: "query ?E ?details [get (params ?doc) ''country'', get (params ?doc) ''type''] offline
      = (Inl connection_refused, ?u1)"
    by (simp add: offline_eq document_request_def get_def query_def reference_defs)
  have "fst (register ?E ?new offline) \<in>
     {respond 409 [(''message'', JStr ''Email already exists. Please use a different email.'')],
      respond 500 [(''message'', JStr ''Internal server error during registration.'')]}"
    using datastore_failures_are_answered [of ?E PostRegister ?new offline ?salt ?s1 ?hash ?s2
        connection_refused ?s3] t g h q
    by blast
  moreover have "fst (login ?E ?old offline) =
      respond 500 [(''message'', JStr ''Internal server error during login.'')]"
    using datastore_failures_are_answered [of ?E PostLogin ?old offline _ _ _ _ _ _
        connection_refused ?t1] t l
    by blast
  moreover have "fst (documents ?E ?doc offline) =
      respond 500 [(''message'', JStr ''Internal server error fetching document details.'')]"
    using datastore_failures_are_answered [of ?E GetDocuments ?doc offline _ _ _ _ _ _ _ _
        connection_refused ?u1] d
    by blast
  ultimately show ?thesis by blast
qed

section \<open>Document lookup\<close>

text \<open>
  C8. When the exact-match query of a document lookup returns no row, the response is
  HTTP 404 with the message \<open>Document not found for the specified country and type.\<close>;
  when it returns one or more rows, the response is HTTP 200 and its body is the first row.
\<close>

theorem document_lookup_first_row_or_404:
  assumes "query E ''SELECT * FROM document_details WHERE country = $1 AND document_type = $2''
             [get (params req) ''country'', get (params req) ''type''] s = (Inr result, s1)"
  shows "(rows result = [] \<longrightarrow>
            documents E req s =
              (respond 404 [(''message'',
                 JStr ''Document not found for the specified country and type.'')], s1))
       \<and> (\<forall>document others. rows result = document # others \<longrightarrow>
            documents E req s = (respond 200 document, s1))"
  using assms by (simp add: documents_def)

theorem document_lookup_first_row_or_404_witness:
  "fst (documents (reference example_kdf) (document_request ''US'' ''visa'') registered) =
     respond 200
       [(''country'', JStr ''US''), (''document_type'', JStr ''visa''), (''fee'', JNum 160)]
   \<and> fst (documents (reference example_kdf) (document_request ''US'' ''passport'') registered) =
     respond 404 [(''message'', JStr ''Document not found for the specified country and type.'')]"
proof -
  let ?E = "reference example_kdf"
  let ?visa = "document_request ''US'' ''visa''"
  let ?passport = "document_request ''US'' ''passport''"
  let ?details = "''SELECT * FROM document_details WHERE country = $1 AND document_type = $2''"
  let ?row = "[(''country'', JStr ''US''), (''document_type'', JStr ''visa''), (''fee'', JNum 160)]"
  let ?s1 = "snd (query ?E ?details [get (params ?visa) ''country'', get (params ?visa) ''type'']
                    registered)"
  let ?s1' = "snd (query ?E ?details
                     [get (params ?passport) ''country'', get (params ?passport) ''type'']
                     registered)"
  have v: "query ?E ?details [get (params ?visa) ''country'', get (params ?visa) ''type'']
      registered = (Inr \<lparr>rows = [?row]\<rparr>, ?s1)"
    by (simp add: registered_eq document_request_def get_def query_def reference_defs)
  have p: "query ?E ?details [get (params ?passport) ''country'', get (params ?passport) ''type'']
      registered = (Inr \<lparr>rows = []\<rparr>, ?s1')"
    by (simp add: registered_eq document_request_def get_def query_def reference_defs)
  have "documents ?E ?visa registered = (respond 200 ?row, ?s1)"
    using document_lookup_first_row_or_404 [OF v] by simp
  moreover have "documents ?E ?passport registered =
      (respond 404 [(''message'',
         JStr ''Document not found for the specified country and type.'')], ?s1')"
    using document_lookup_first_row_or_404 [OF p] by simp
  ultimately show ?thesis by simp
qed

section \<open>User rows are only ever added\<close>

lemma statements_append [simp]: "statements (xs @ ys) = statements xs @ statements ys"
  by (induction xs rule: statements.induct) simp_all

lemma statements_register_catch [simp]:
  "statements (trace (snd (register_catch error s))) = statements (trace s)"
  by (simp add: register_catch_def Let_def console_error_def)

lemma statements_login_catch [simp]:
  "statements (trace (snd (login_catch error s))) = statements (trace s)"
  by (simp add: login_catch_def Let_def console_error_def)

lemma statements_documents_catch [simp]:
  "statements (trace (snd (documents_catch error s))) = statements (trace s)"
  by (simp add: documents_catch_def Let_def console_error_def)

lemma statements_register:
  "statements (trace (snd (register E req s))) = statements (trace s) \<or>
   statements (trace (snd (register E req s))) = statements (trace s) @
     [''INSERT INTO users (email, password_hash, salt) VALUES ($1, $2, $3) RETURNING id'']"
  unfolding register_def Let_def
  by (auto simp add: genSalt_def hash_def query_def split: prod.split sum.split list.split)

lemma statements_login:
  "statements (trace (snd (login E req s))) = statements (trace s) \<or>
   statements (trace (snd (login E req s))) = statements (trace s) @
     [''SELECT * FROM users WHERE email = $1'']"
  unfolding login_def Let_def
  by (auto simp add: compare_def query_def split: prod.split sum.split list.split)

lemma statements_documents:
  "statements (trace (snd (documents E req s))) = statements (trace s) @
     [''SELECT * FROM document_details WHERE country = $1 AND document_type = $2'']"
  unfolding documents_def Let_def
  by (auto simp add: query_def split: prod.split sum.split list.split)

lemma app_statements:
  "set (statements (trace (snd (app E r s)))) \<subseteq> set (statements (trace s)) \<union> known_statements
   \<and> writes (trace (snd (app E r s))) \<le> writes (trace s) + registrations [r]"
proof (cases r)
  case (Pair ep req)
  show ?thesis
  proof (cases ep)
    case PostRegister
    then show ?thesis using Pair statements_register [of E req s]
      by (auto simp add: known_statements_def writes_def registrations_def)
  next
    case PostLogin
    then show ?thesis using Pair statements_login [of E req s]
      by (auto simp add: known_statements_def writes_def registrations_def)
  next
    case GetDocuments
    then show ?thesis using Pair statements_documents [of E req s]
      by (auto simp add: known_statements_def writes_def registrations_def)
  qed
qed

lemma serve_statements:
  "set (statements (trace (snd (serve E rs s)))) \<subseteq> set (statements (trace s)) \<union> known_statements
   \<and> writes (trace (snd (serve E rs s))) \<le> writes (trace s) + registrations rs"
proof (induction rs arbitrary: s)
  case Nil
  show ?case by (simp add: registrations_def)
next
  case (Cons r rs)
  obtain res s1 where a: "app E r s = (res, s1)" by (cases "app E r s")
  obtain ress s2 where b: "serve E rs s1 = (ress, s2)" by (cases "serve E rs s1")
  have 1: "set (statements (trace s1)) \<subseteq> set (statements (trace s)) \<union> known_statements"
    and 2: "writes (trace s1) \<le> writes (trace s) + registrations [r]"
    using app_statements [of E r s] a by simp_all
  have 3: "set (statements (trace s2)) \<subseteq> set (statements (trace s1)) \<union> known_statements"
    and 4: "writes (trace s2) \<le> writes (trace s1) + registrations rs"
    using Cons.IH [of s1] b by simp_all
  have "registrations (r # rs) = registrations [r] + registrations rs"
    by (simp add: registrations_def)
  then show ?case using a b 1 2 3 4 by auto
qed

lemma ref_select_users:
  assumes "sql \<noteq> ''INSERT INTO users (email, password_hash, salt) VALUES ($1, $2, $3) RETURNING id''"
  shows "users (world (snd (query (reference kdf) sql vals s))) = users (world s)"
  using pg_query_users [of sql vals "world s" "fst (pg_query sql vals (world s))"
      "snd (pg_query sql vals (world s))"] assms
  by (auto simp add: query_def reference_def split: prod.split)

lemma ref_compare_world:
  "world (snd (compare (reference kdf) data encrypted s)) = world s"
  by (simp add: compare_def reference_def split: prod.split)
    (metis snd_conv snd_ref_compare)

lemma login_reads_only:
  "users (world (snd (login (reference kdf) req s))) = users (world s)"
proof -
  have q: "users (world s1) = users (world s)"
    if "query (reference kdf) ''SELECT * FROM users WHERE email = $1'' vals s = (r, s1)"
    for vals r s1
    using ref_select_users [of "''SELECT * FROM users WHERE email = $1''" kdf vals s] that
    by simp
  have c: "world s2 = world s1" if "compare (reference kdf) data encrypted s1 = (r, s2)"
    for data encrypted s1 r s2
    using ref_compare_world [of kdf data encrypted s1] that by simp
  have qc: "users (world s2) = users (world s)"
    if "query (reference kdf) ''SELECT * FROM users WHERE email = $1'' vals s = (r, s1)"
      and "compare (reference kdf) data encrypted s1 = (r', s2)"
    for vals r s1 data encrypted r' s2
    using q [OF that(1)] c [OF that(2)] by simp
  show ?thesis
    unfolding login_def Let_def
    by (auto split: prod.split sum.split list.split intro: q qc)
qed

lemma documents_reads_only:
  "users (world (snd (documents (reference kdf) req s))) = users (world s)"
proof -
  have q: "users (world s1) = users (world s)"
    if "query (reference kdf)
          ''SELECT * FROM document_details WHERE country = $1 AND document_type = $2'' vals s
        = (r, s1)" for vals r s1
    using ref_select_users [of
        "''SELECT * FROM document_details WHERE country = $1 AND document_type = $2''" kdf vals s]
      that
    by simp
  show ?thesis
    unfolding documents_def Let_def
    by (auto split: prod.split sum.split list.split dest: q)
qed

text \<open>
  C9. Serve any sequence of requests to the three endpoints. In the reference datastore
  the \<open>users\<close> table afterwards begins with the table before, row for row: no stored row
  is changed or removed. Login and document lookup leave the table as it is. Whatever the
  datastore, the only statements sent are the \<open>INSERT\<close> of registration and the two
  \<open>SELECT\<close>s, and at most one statement that is not a \<open>SELECT\<close> is sent per
  registration request.
\<close>

theorem user_rows_never_change:
  "prefix (users (world s)) (users (world (snd (serve (reference kdf) requests s))))
   \<and> users (world (snd (login (reference kdf) req s))) = users (world s)
   \<and> users (world (snd (documents (reference kdf) req s))) = users (world s)
   \<and> set (statements (trace (snd (serve E requests t)))) \<subseteq>
       set (statements (trace t)) \<union>
       {''INSERT INTO users (email, password_hash, salt) VALUES ($1, $2, $3) RETURNING id'',
        ''SELECT * FROM users WHERE email = $1'',
        ''SELECT * FROM document_details WHERE country = $1 AND document_type = $2''}
   \<and> writes (trace (snd (serve E requests t))) \<le> writes (trace t) + registrations requests"
  using serve_stable [OF rows_kept_order reference_rows_kept, of s kdf requests]
    serve_statements [of E requests t] login_reads_only [of kdf req s]
    documents_reads_only [of kdf req s]
  by (simp add: rows_kept_def known_statements_def)

theorem user_rows_never_change_witness:
  "prefix (users (world registered))
     (users (world (snd (serve (reference example_kdf)
        [(PostLogin, credentials ''a@x.com'' ''secret''),
         (PostRegister, credentials ''b@x.com'' ''hunter2''),
         (GetDocuments, document_request ''US'' ''visa'')] registered))))
   \<and> length (users (world (snd (serve (reference example_kdf)
        [(PostLogin, credentials ''a@x.com'' ''secret''),
         (PostRegister, credentials ''b@x.com'' ''hunter2''),
         (GetDocuments, document_request ''US'' ''visa'')] registered)))) = 2
   \<and> writes (trace (snd (serve (reference example_kdf)
        [(PostLogin, credentials ''a@x.com'' ''secret''),
         (PostRegister, credentials ''b@x.com'' ''hunter2''),
         (GetDocuments, document_request ''US'' ''visa'')] registered)))
       \<le> writes (trace registered) + 1"
proof -
  let ?requests = "[(PostLogin, credentials ''a@x.com'' ''secret''),
         (PostRegister, credentials ''b@x.com'' ''hunter2''),
         (GetDocuments, document_request ''US'' ''visa'')]"
  have n: "registrations ?requests = 1"
    by (simp add: registrations_def)
  have l: "length (users (world (snd (serve (reference example_kdf) ?requests registered)))) = 2"
    by (simp add: registered_eq example_defs get_def handler_defs effect_defs reference_defs)
  show ?thesis
    using user_rows_never_change [of registered example_kdf ?requests
        "credentials ''a@x.com'' ''secret''" "reference example_kdf" registered] n l
    by simp
qed

section \<open>The two source files agree\<close>

lemma part_000_login_catch_eq: "part_000_login_catch = login_catch"
  by (simp add: fun_eq_iff part_000_login_catch_def login_catch_def)

lemma part_000_documents_catch_eq: "part_000_documents_catch = documents_catch"
  by (simp add: fun_eq_iff part_000_documents_catch_def documents_catch_def)

lemma part_000_login_eq: "part_000_login E req s = login E req s"
  unfolding part_000_login_def login_def part_000_login_catch_eq by (rule refl)

lemma part_000_documents_eq: "part_000_documents E req s = documents E req s"
  unfolding part_000_documents_def documents_def part_000_documents_catch_eq by (rule refl)

lemma part_000_register_catch_cases:
  "snd (part_000_register_catch error s) = snd (register_catch error s)
   \<and> status (fst (part_000_register_catch error s)) = status (fst (register_catch error s))
   \<and> (json (fst (part_000_register_catch error s)) = json (fst (register_catch error s))
      \<or> status (fst (register_catch error s)) = 409
        \<and> json (fst (register_catch error s)) =
            [(''message'', JStr ''Email already exists. Please use a different email.'')]
        \<and> json (fst (part_000_register_catch error s)) =
            [(''message'', JStr ''Email already exists.'')])"
  by (simp add: part_000_register_catch_def register_catch_def respond_def Let_def)

lemma part_000_register_runs_alike:
  "part_000_register E req s = register E req s
   \<or> (\<exists>error s1. part_000_register E req s = part_000_register_catch error s1
        \<and> register E req s = register_catch error s1)"
  unfolding part_000_register_def register_def Let_def
  by (auto split: prod.split sum.split list.split)

text \<open>
  C10. For every request, state and behaviour of the collaborators, the login handlers of
  the two source files return the same response and state, and so do the document
  handlers. The register handlers return the same state and the same status, and the same
  body except when the status is 409: there \<open>src/server.js\<close> says
  \<open>Email already exists. Please use a different email.\<close> and \<open>src/unnamed/part_000\<close>
  says \<open>Email already exists.\<close>
\<close>

theorem source_files_agree:
  "part_000_login E req s = login E req s
   \<and> part_000_documents E req s = documents E req s
   \<and> snd (part_000_register E req s) = snd (register E req s)
   \<and> status (fst (part_000_register E req s)) = status (fst (register E req s))
   \<and> (json (fst (part_000_register E req s)) = json (fst (register E req s))
      \<or> status (fst (register E req s)) = 409
        \<and> json (fst (register E req s)) =
            [(''message'', JStr ''Email already exists. Please use a different email.'')]
        \<and> json (fst (part_000_register E req s)) =
            [(''message'', JStr ''Email already exists.'')])"
proof -
  have "snd (part_000_register E req s) = snd (register E req s)
   \<and> status (fst (part_000_register E req s)) = status (fst (register E req s))
   \<and> (json (fst (part_000_register E req s)) = json (fst (register E req s))
      \<or> status (fst (register E req s)) = 409
        \<and> json (fst (register E req s)) =
            [(''message'', JStr ''Email already exists. Please use a different email.'')]
        \<and> json (fst (part_000_register E req s)) =
            [(''message'', JStr ''Email already exists.'')])"
    using part_000_register_runs_alike [of E req s] part_000_register_catch_cases
    by (elim disjE exE conjE) simp_all
  then show ?thesis
    by (simp add: part_000_login_eq part_000_documents_eq)
qed

theorem source_files_agree_witness:
  "status (fst (part_000_register (reference example_kdf) (credentials ''a@x.com'' ''secret'')
                  registered)) = 409
   \<and> status (fst (register (reference example_kdf) (credentials ''a@x.com'' ''secret'')
                    registered)) = 409
   \<and> part_000_login (reference example_kdf) (credentials ''a@x.com'' ''secret'') registered =
       login (reference example_kdf) (credentials ''a@x.com'' ''secret'') registered
   \<and> snd (part_000_register (reference example_kdf) (credentials ''a@x.com'' ''secret'')
             registered) =
       snd (register (reference example_kdf) (credentials ''a@x.com'' ''secret'') registered)"
proof -
  have "status (fst (register (reference example_kdf) (credentials ''a@x.com'' ''secret'')
                    registered)) = 409"
    by (simp add: registered_eq example_defs get_def handler_defs effect_defs reference_defs
        respond_def)
  then show ?thesis
    using source_files_agree [of "reference example_kdf" "credentials ''a@x.com'' ''secret''"
        registered]
    by simp
qed

end
